theory Spec2Isabelle
  imports Complex_Main "HOL-Library.AList" "HOL-Library.Log_Nat"
begin

section \<open>Python values and documents\<close>

text \<open>
  The values that occur in the documents and queries of \<^verbatim>\<open>backend/server.py\<close>:
  \<^verbatim>\<open>None\<close>, booleans, integers, floats, strings and datetimes. A float is a finite
  binary64 value, written as the rational number it denotes (every finite float is one);
  NaN and the infinities are not part of the model. A datetime is its instant.
\<close>

datatype pyval =
    VNone
  | VBool bool
  | VInt int
  | VFloat rat
  | VStr string
  | VDatetime int

text \<open>
  A document is a Python \<^verbatim>\<open>dict\<close> with string keys, kept as an association list in
  insertion order; \<open>map_of\<close> is the lookup and \<open>AList.update\<close> is the assignment
  \<^verbatim>\<open>d[k] = v\<close> (an existing key keeps its position, a new key goes last).
\<close>

type_synonym doc = "(string \<times> pyval) list"

datatype py_error =
    KeyError
  | TypeError
  | OverflowError
  | AttributeError
  | ValidationError

text \<open>
  Python's \<^verbatim>\<open>==\<close> on these values: \<^verbatim>\<open>bool\<close>, \<^verbatim>\<open>int\<close> and \<^verbatim>\<open>float\<close> compare by
  numeric value (\<^verbatim>\<open>True == 1 == 1.0\<close>); every other pair is equal only when both sides
  have the same type and the same content.
\<close>

fun num_val :: "pyval \<Rightarrow> rat option" where
  "num_val (VBool b) = Some (if b then 1 else 0)"
| "num_val (VInt n) = Some (of_int n)"
| "num_val (VFloat r) = Some r"
| "num_val v = None"

definition py_eq :: "pyval \<Rightarrow> pyval \<Rightarrow> bool" where
  "py_eq a b =
     (case (num_val a, num_val b) of
        (Some x, Some y) \<Rightarrow> x = y
      | (None, None) \<Rightarrow> a = b
      | _ \<Rightarrow> False)"

section \<open>The in-memory store\<close>

text \<open>
  \<^verbatim>\<open>
  def _matches_query(self, item, query):
      for key, value in query.items():
          if key not in item or item[key] != value:
              return False
      return True
  \<close>
\<close>

fun matches_query :: "doc \<Rightarrow> doc \<Rightarrow> bool" where
  "matches_query item [] = True"
| "matches_query item ((key, value) # rest) =
     (case map_of item key of
        None \<Rightarrow> False
      | Some v \<Rightarrow> if \<not> py_eq v value then False else matches_query item rest)"

datatype InMemoryCursor = InMemoryCursor (cursor_data: "doc list")

text \<open>
  \<^verbatim>\<open>
  async def find(self, query=None):
      if query is None:
          return InMemoryCursor(self.data)
      filtered = []
      for item in self.data:
          if self._matches_query(item, query):
              filtered.append(item)
      return InMemoryCursor(filtered)
  \<close>
  \<open>find_loop\<close> is the \<^verbatim>\<open>for\<close> loop, with \<^verbatim>\<open>filtered\<close> as its accumulator.
  \<open>find_coll\<close> is what awaiting the call yields.
\<close>

fun find_loop :: "doc list \<Rightarrow> doc \<Rightarrow> doc list \<Rightarrow> doc list" where
  "find_loop [] query filtered = filtered"
| "find_loop (item # rest) query filtered =
     (if matches_query item query
      then find_loop rest query (filtered @ [item])
      else find_loop rest query filtered)"

definition find_coll :: "doc list \<Rightarrow> doc option \<Rightarrow> InMemoryCursor" where
  "find_coll data query =
     (case query of
        None \<Rightarrow> InMemoryCursor data
      | Some q \<Rightarrow> InMemoryCursor (find_loop data q []))"

text \<open>
  \<^verbatim>\<open>
  async def find_one(self, query):
      for item in self.data:
          if self._matches_query(item, query):
              return item
      return None
  \<close>
\<close>

fun find_one :: "doc list \<Rightarrow> doc \<Rightarrow> doc option" where
  "find_one [] query = None"
| "find_one (item # rest) query =
     (if matches_query item query then Some item else find_one rest query)"

text \<open>
  \<^verbatim>\<open>
  async def insert_one(self, document):
      self.data.append(document)
      return type('InsertResult', (), {'inserted_id': document.get('id')})()

  async def insert_many(self, documents):
      self.data.extend(documents)
      return type('InsertResult', (), {'inserted_ids': [d.get('id') for d in documents]})()
  \<close>
  Both mutate the list they were given; the model returns the new list next to the
  result. \<^verbatim>\<open>dict.get\<close> yields \<^verbatim>\<open>None\<close> for a missing key.
\<close>

definition dict_get :: "doc \<Rightarrow> string \<Rightarrow> pyval" where
  "dict_get d k = (case map_of d k of None \<Rightarrow> VNone | Some v \<Rightarrow> v)"

definition insert_one :: "doc list \<Rightarrow> doc \<Rightarrow> pyval \<times> doc list" where
  "insert_one data document = (dict_get document ''id'', data @ [document])"

definition insert_many :: "doc list \<Rightarrow> doc list \<Rightarrow> pyval list \<times> doc list" where
  "insert_many data documents =
     (map (\<lambda>d. dict_get d ''id'') documents, data @ documents)"

text \<open>
  \<^verbatim>\<open>
  async def count_documents(self, query=None):
      if query is None:
          return len(self.data)
      count = 0
      for item in self.data:
          if self._matches_query(item, query):
              count += 1
      return count
  \<close>
\<close>

fun count_loop :: "doc list \<Rightarrow> doc \<Rightarrow> nat \<Rightarrow> nat" where
  "count_loop [] query count = count"
| "count_loop (item # rest) query count =
     (if matches_query item query
      then count_loop rest query (count + 1)
      else count_loop rest query count)"

definition count_documents :: "doc list \<Rightarrow> doc option \<Rightarrow> nat" where
  "count_documents data query =
     (case query of
        None \<Rightarrow> length data
      | Some q \<Rightarrow> count_loop data q 0)"

text \<open>
  \<^verbatim>\<open>
  async def to_list(self, length=None):
      return self.data[:length] if length else self.data
  \<close>
  The test \<^verbatim>\<open>if length\<close> is Python truthiness: \<^verbatim>\<open>None\<close> and \<^verbatim>\<open>0\<close> are false, every
  other integer is true. The slice \<^verbatim>\<open>data[:n]\<close> keeps the first \<open>n\<close> elements for
  \<open>n \<ge> 0\<close> and drops the last \<open>-n\<close> for \<open>n < 0\<close>.
\<close>

definition slice_to :: "'a list \<Rightarrow> int \<Rightarrow> 'a list" where
  "slice_to xs n =
     (if 0 \<le> n then take (nat n) xs else take (length xs - nat (- n)) xs)"

definition to_list :: "InMemoryCursor \<Rightarrow> int option \<Rightarrow> doc list" where
  "to_list cursor len =
     (case len of
        None \<Rightarrow> cursor_data cursor
      | Some n \<Rightarrow> if n \<noteq> 0 then slice_to (cursor_data cursor) n else cursor_data cursor)"

text \<open>
  \<^verbatim>\<open>
  class InMemoryDB:
      def __init__(self):
          self.collections = {'menu': [], 'orders': [], 'status_checks': []}
      def get_collection(self, name):
          return InMemoryCollection(self.collections[name])
  \<close>
  The dictionary has these three keys for the whole life of the process, so it is a record
  of three lists. \<open>get_collection\<close> reads the list behind a name (\<^verbatim>\<open>KeyError\<close> for any
  other name). An \<^verbatim>\<open>InMemoryCollection\<close> holds a reference to that very list, so what
  \<^verbatim>\<open>insert_one\<close> appends is seen by the database: \<open>put_collection\<close> stores the new
  list back under the name.
\<close>

record InMemoryDB =
  menu :: "doc list"
  orders :: "doc list"
  status_checks :: "doc list"

definition InMemoryDB_init :: InMemoryDB where
  "InMemoryDB_init = \<lparr>menu = [], orders = [], status_checks = []\<rparr>"

definition get_collection :: "InMemoryDB \<Rightarrow> string \<Rightarrow> py_error + doc list" where
  "get_collection db name =
     (if name = ''menu'' then Inr (menu db)
      else if name = ''orders'' then Inr (orders db)
      else if name = ''status_checks'' then Inr (status_checks db)
      else Inl KeyError)"

definition put_collection :: "InMemoryDB \<Rightarrow> string \<Rightarrow> doc list \<Rightarrow> InMemoryDB" where
  "put_collection db name data =
     (if name = ''menu'' then db\<lparr>menu := data\<rparr>
      else if name = ''orders'' then db\<lparr>orders := data\<rparr>
      else if name = ''status_checks'' then db\<lparr>status_checks := data\<rparr>
      else db)"

text \<open>
  \<^verbatim>\<open>db.get_collection(name).insert_one(document)\<close> and
  \<^verbatim>\<open>db.get_collection(name).insert_many(documents)\<close> as state transformers.
\<close>

definition db_insert_one ::
  "InMemoryDB \<Rightarrow> string \<Rightarrow> doc \<Rightarrow> py_error + pyval \<times> InMemoryDB" where
  "db_insert_one db name document =
     (case get_collection db name of
        Inl e \<Rightarrow> Inl e
      | Inr data \<Rightarrow>
          (case insert_one data document of
             (inserted_id, data') \<Rightarrow> Inr (inserted_id, put_collection db name data')))"

definition db_insert_many ::
  "InMemoryDB \<Rightarrow> string \<Rightarrow> doc list \<Rightarrow> py_error + pyval list \<times> InMemoryDB" where
  "db_insert_many db name documents =
     (case get_collection db name of
        Inl e \<Rightarrow> Inl e
      | Inr data \<Rightarrow>
          (case insert_many data documents of
             (inserted_ids, data') \<Rightarrow> Inr (inserted_ids, put_collection db name data')))"

section \<open>Exceptions\<close>

datatype HTTPException = HTTPException (status_code: nat) (detail: string)

text \<open>
  What a call can raise: an \<^verbatim>\<open>HTTPException\<close>, an exception of the Python runtime or of
  pydantic, an exception of an external library that is an instance of \<^verbatim>\<open>Exception\<close>
  (known by a tag), or an exception that derives from \<^verbatim>\<open>BaseException\<close> only, such as
  \<^verbatim>\<open>asyncio.CancelledError\<close> or \<^verbatim>\<open>KeyboardInterrupt\<close>. A clause \<^verbatim>\<open>except Exception\<close>
  catches the first three kinds and lets the last one pass.
\<close>

datatype exn =
    HTTPExc HTTPException
  | PyExc py_error
  | LibraryExc string
  | BaseExc string

fun is_Exception :: "exn \<Rightarrow> bool" where
  "is_Exception (BaseExc tag) = False"
| "is_Exception e = True"

definition bind_exn :: "'e + 'a \<Rightarrow> ('a \<Rightarrow> 'e + 'b) \<Rightarrow> 'e + 'b" where
  "bind_exn m f = (case m of Inl e \<Rightarrow> Inl e | Inr x \<Rightarrow> f x)"

definition py_raise :: "py_error + 'a \<Rightarrow> exn + 'a" where
  "py_raise m = (case m of Inl e \<Rightarrow> Inl (PyExc e) | Inr x \<Rightarrow> Inr x)"

text \<open>\<^verbatim>\<open>d[k]\<close> on a dictionary.\<close>

definition dict_item :: "doc \<Rightarrow> string \<Rightarrow> py_error + pyval" where
  "dict_item d k = (case map_of d k of None \<Rightarrow> Inl KeyError | Some v \<Rightarrow> Inr v)"

section \<open>Float arithmetic\<close>

text \<open>
  Python's floats are IEEE 754 binary64 numbers, and its arithmetic rounds the exact result
  to the nearest of them, ties to the one with an even significand. \<open>round_binary64 x\<close>
  is that rounding of a rational \<open>x\<close>: \<open>floor_log2\<close> finds the binade of \<open>\<bar>x\<bar>\<close>, the
  unit in the last place is \<open>2\<close> to that exponent (at least \<open>-1022\<close>, below which the
  numbers are subnormal) minus \<open>52\<close>, and \<open>\<bar>x\<bar>\<close> is rounded to a multiple of it. The
  model has finite floats only: a result of magnitude \<open>2 ^ 1024\<close> or more, which is an
  infinity in Python, is outside it.
\<close>

definition pow2 :: "int \<Rightarrow> rat" where
  "pow2 e = (if 0 \<le> e then 2 ^ nat e else 1 / 2 ^ nat (- e))"

definition floor_log2 :: "rat \<Rightarrow> int" where
  "floor_log2 x = (if 1 \<le> x then bitlen \<lfloor>x\<rfloor> - 1 else - bitlen (\<lceil>1 / x\<rceil> - 1))"

definition round_half_even :: "rat \<Rightarrow> int" where
  "round_half_even m =
     (let f = \<lfloor>m\<rfloor>; r = m - of_int f
      in if r < 1 / 2 then f else if 1 / 2 < r then f + 1 else if even f then f else f + 1)"

definition round_binary64 :: "rat \<Rightarrow> rat" where
  "round_binary64 x =
     (if x = 0 then 0
      else let u = pow2 (max (floor_log2 \<bar>x\<bar>) (- 1022) - 52)
           in sgn x * of_int (round_half_even (\<bar>x\<bar> / u)) * u)"

text \<open>
  \<^verbatim>\<open>float(n)\<close> for an integer, which is also the conversion that \<^verbatim>\<open>x * n\<close> applies to
  \<open>n\<close> when \<open>x\<close> is a float: the nearest float, or \<^verbatim>\<open>OverflowError\<close> when that is not
  finite. \<open>float_mul\<close> is the product of two floats.
\<close>

definition float_of_int :: "int \<Rightarrow> py_error + rat" where
  "float_of_int n =
     (if \<bar>round_binary64 (of_int n)\<bar> < 2 ^ 1024
      then Inr (round_binary64 (of_int n)) else Inl OverflowError)"

definition float_mul :: "rat \<Rightarrow> rat \<Rightarrow> rat" where
  "float_mul a b = round_binary64 (a * b)"

section \<open>Models\<close>

text \<open>
  Field validation is pydantic's. A value that has the declared type of its field is kept
  as it is. An integer given for a float field becomes \<^verbatim>\<open>float(n)\<close>; the numbers 1 and 0
  given for a bool field become \<^verbatim>\<open>True\<close> and \<^verbatim>\<open>False\<close>. What pydantic makes of any
  other value (a numeric string for a number, a number for a string, a timestamp for a
  datetime, ...) depends on its version and on its parsers; these coercions are the
  parameter \<open>P\<close> of the validators, \<open>None\<close> where pydantic rejects the value. A field
  without a default must be present; a missing field with a default takes the default.
\<close>

record pydantic =
  coerce_str :: "pyval \<Rightarrow> string option"
  coerce_int :: "pyval \<Rightarrow> int option"
  coerce_float :: "pyval \<Rightarrow> rat option"
  str_to_bool :: "string \<Rightarrow> bool option"
  coerce_datetime :: "pyval \<Rightarrow> int option"

definition coerced :: "'a option \<Rightarrow> py_error + 'a" where
  "coerced c = (case c of None \<Rightarrow> Inl ValidationError | Some x \<Rightarrow> Inr x)"

definition validate_str :: "pydantic \<Rightarrow> pyval \<Rightarrow> py_error + string" where
  "validate_str P v = (case v of VStr s \<Rightarrow> Inr s | _ \<Rightarrow> coerced (coerce_str P v))"

definition validate_int :: "pydantic \<Rightarrow> pyval \<Rightarrow> py_error + int" where
  "validate_int P v = (case v of VInt n \<Rightarrow> Inr n | _ \<Rightarrow> coerced (coerce_int P v))"

definition validate_float :: "pydantic \<Rightarrow> pyval \<Rightarrow> py_error + rat" where
  "validate_float P v =
     (case v of
        VFloat r \<Rightarrow> Inr r
      | VInt n \<Rightarrow> float_of_int n
      | _ \<Rightarrow> coerced (coerce_float P v))"

definition validate_bool :: "pydantic \<Rightarrow> pyval \<Rightarrow> py_error + bool" where
  "validate_bool P v =
     (case v of
        VBool b \<Rightarrow> Inr b
      | VInt n \<Rightarrow> if n = 1 then Inr True else if n = 0 then Inr False else Inl ValidationError
      | VFloat r \<Rightarrow> if r = 1 then Inr True else if r = 0 then Inr False else Inl ValidationError
      | VStr s \<Rightarrow> coerced (str_to_bool P s)
      | _ \<Rightarrow> Inl ValidationError)"

definition validate_datetime :: "pydantic \<Rightarrow> pyval \<Rightarrow> py_error + int" where
  "validate_datetime P v =
     (case v of VDatetime t \<Rightarrow> Inr t | _ \<Rightarrow> coerced (coerce_datetime P v))"

definition required_field :: "(pyval \<Rightarrow> py_error + 'a) \<Rightarrow> doc \<Rightarrow> string \<Rightarrow> py_error + 'a" where
  "required_field validate kwargs k =
     (case map_of kwargs k of None \<Rightarrow> Inl ValidationError | Some v \<Rightarrow> validate v)"

definition default_field ::
  "(pyval \<Rightarrow> py_error + 'a) \<Rightarrow> doc \<Rightarrow> string \<Rightarrow> 'a \<Rightarrow> py_error + 'a" where
  "default_field validate kwargs k d =
     (case map_of kwargs k of None \<Rightarrow> Inr d | Some v \<Rightarrow> validate v)"

text \<open>
  \<^verbatim>\<open>
  class CoffeeItem(BaseModel):
      id: str = Field(default_factory=lambda: str(uuid.uuid4()))
      name: str
      origin: str
      description: str
      price: float
      available: bool = True
  \<close>
  \<open>CoffeeItem_init P new_id kwargs\<close> is \<^verbatim>\<open>CoffeeItem(**kwargs)\<close>, where \<open>new_id\<close> is
  what \<^verbatim>\<open>str(uuid.uuid4())\<close> would return.
\<close>

record CoffeeItem =
  item_id :: string
  name :: string
  origin :: string
  description :: string
  price :: rat
  available :: bool


text \<open>
  \<^verbatim>\<open>
  class Order(BaseModel):
      id: str = Field(default_factory=lambda: str(uuid.uuid4()))
      customer_name: str
      coffee_id: str
      coffee_name: str
      quantity: int = 1
      total_price: float
      timestamp: datetime = Field(default_factory=datetime.utcnow)
      status: str = "pending"

  class OrderCreate(BaseModel):
      customer_name: str
      coffee_id: str
      quantity: int = 1
  \<close>
  The fields of \<open>OrderCreate\<close> carry the prefix \<open>req_\<close>, since a field name belongs to
  one record. \<open>Order_init P new_id now kwargs\<close> is \<^verbatim>\<open>Order(**kwargs)\<close>, where \<open>new_id\<close>
  and \<open>now\<close> are what the two default factories would return; \<open>Order_dict\<close> and
  \<open>OrderCreate_dict\<close> are \<^verbatim>\<open>.dict()\<close>, the fields in declaration order.
\<close>

record OrderCreate =
  req_customer_name :: string
  req_coffee_id :: string
  req_quantity :: int

record Order =
  order_id :: string
  customer_name :: string
  coffee_id :: string
  coffee_name :: string
  quantity :: int
  total_price :: rat
  timestamp :: int
  status :: string

definition Order_init :: "pydantic \<Rightarrow> string \<Rightarrow> int \<Rightarrow> doc \<Rightarrow> py_error + Order" where
  "Order_init P new_id now kwargs =
     bind_exn (default_field (validate_str P) kwargs ''id'' new_id) (\<lambda>i.
     bind_exn (required_field (validate_str P) kwargs ''customer_name'') (\<lambda>cn.
     bind_exn (required_field (validate_str P) kwargs ''coffee_id'') (\<lambda>ci.
     bind_exn (required_field (validate_str P) kwargs ''coffee_name'') (\<lambda>cf.
     bind_exn (default_field (validate_int P) kwargs ''quantity'' 1) (\<lambda>q.
     bind_exn (required_field (validate_float P) kwargs ''total_price'') (\<lambda>tp.
     bind_exn (default_field (validate_datetime P) kwargs ''timestamp'' now) (\<lambda>ts.
     bind_exn (default_field (validate_str P) kwargs ''status'' ''pending'') (\<lambda>st.
     Inr \<lparr>order_id = i, customer_name = cn, coffee_id = ci, coffee_name = cf,
          quantity = q, total_price = tp, timestamp = ts, status = st\<rparr>))))))))"

definition Order_dict :: "Order \<Rightarrow> doc" where
  "Order_dict order =
     [(''id'', VStr (order_id order)),
      (''customer_name'', VStr (customer_name order)),
      (''coffee_id'', VStr (coffee_id order)),
      (''coffee_name'', VStr (coffee_name order)),
      (''quantity'', VInt (quantity order)),
      (''total_price'', VFloat (total_price order)),
      (''timestamp'', VDatetime (timestamp order)),
      (''status'', VStr (status order))]"

definition OrderCreate_dict :: "OrderCreate \<Rightarrow> doc" where
  "OrderCreate_dict order_create =
     [(''customer_name'', VStr (req_customer_name order_create)),
      (''coffee_id'', VStr (req_coffee_id order_create)),
      (''quantity'', VInt (req_quantity order_create))]"

section \<open>Coffee shop handlers\<close>

text \<open>
  Python's \<^verbatim>\<open>v * q\<close> for an integer \<open>q\<close>, as in
  \<^verbatim>\<open>coffee_item["price"] * order_create.quantity\<close>. For a float, \<open>q\<close> is converted to a
  float and the two floats are multiplied. For an integer the product is the integer
  product; a bool counts as the integer 0 or 1; a string is repeated; \<^verbatim>\<open>None\<close> and a
  datetime raise \<^verbatim>\<open>TypeError\<close>.
\<close>

definition py_mul :: "pyval \<Rightarrow> int \<Rightarrow> py_error + pyval" where
  "py_mul v q =
     (case v of
        VFloat r \<Rightarrow>
          (case float_of_int q of Inl e \<Rightarrow> Inl e | Inr qf \<Rightarrow> Inr (VFloat (float_mul r qf)))
      | VInt n \<Rightarrow> Inr (VInt (n * q))
      | VBool b \<Rightarrow> Inr (VInt ((if b then 1 else 0) * q))
      | VStr s \<Rightarrow> Inr (VStr (concat (replicate (nat q) s)))
      | VNone \<Rightarrow> Inl TypeError
      | VDatetime t \<Rightarrow> Inl TypeError)"

text \<open>
  \<^verbatim>\<open>
  async def create_order(order_create: OrderCreate):
      try:
          menu_collection = db.get_collection('menu')
          orders_collection = db.get_collection('orders')
          coffee_item = await menu_collection.find_one(
              {"id": order_create.coffee_id, "available": True})
          if not coffee_item:
              raise HTTPException(status_code=404, detail="Coffee item not found or unavailable")
          total_price = coffee_item["price"] * order_create.quantity
          order_data = {**order_create.dict(), "coffee_name": coffee_item["name"],
                        "total_price": total_price, "status": "pending"}
          order = Order(**order_data)
          await orders_collection.insert_one(order.dict())
          return order
      except HTTPException:
          raise
      except Exception as e:
          raise HTTPException(status_code=500, detail="Failed to create order")
  \<close>
  This is the handler on the in-memory database. \<open>create_order_try\<close> is the \<^verbatim>\<open>try\<close>
  block; \<^verbatim>\<open>not coffee_item\<close> holds for \<^verbatim>\<open>None\<close> and for an empty dictionary. The
  handler returns what it answers (\<open>Inl e\<close>: it raises \<open>e\<close>) together with the database
  after the request.
\<close>

definition create_order_try ::
  "pydantic \<Rightarrow> string \<Rightarrow> int \<Rightarrow> InMemoryDB \<Rightarrow> OrderCreate \<Rightarrow> exn + Order \<times> InMemoryDB" where
  "create_order_try P new_id now db order_create =
     bind_exn (py_raise (get_collection db ''menu'')) (\<lambda>menu_collection.
     bind_exn (py_raise (get_collection db ''orders'')) (\<lambda>orders_collection.
     (case find_one menu_collection
             [(''id'', VStr (req_coffee_id order_create)), (''available'', VBool True)] of
        None \<Rightarrow> Inl (HTTPExc (HTTPException 404 ''Coffee item not found or unavailable''))
      | Some coffee_item \<Rightarrow>
          if coffee_item = []
          then Inl (HTTPExc (HTTPException 404 ''Coffee item not found or unavailable''))
          else
            bind_exn (py_raise (dict_item coffee_item ''price'')) (\<lambda>item_price.
            bind_exn (py_raise (py_mul item_price (req_quantity order_create))) (\<lambda>product.
            bind_exn (py_raise (dict_item coffee_item ''name'')) (\<lambda>item_name.
            bind_exn (py_raise (Order_init P new_id now
                (AList.update ''status'' (VStr ''pending'')
                  (AList.update ''total_price'' product
                    (AList.update ''coffee_name'' item_name
                      (OrderCreate_dict order_create)))))) (\<lambda>order.
            (case insert_one orders_collection (Order_dict order) of
               (inserted_id, data') \<Rightarrow>
                 Inr (order, put_collection db ''orders'' data')))))))))"

definition create_order ::
  "pydantic \<Rightarrow> string \<Rightarrow> int \<Rightarrow> InMemoryDB \<Rightarrow> OrderCreate \<Rightarrow> (exn + Order) \<times> InMemoryDB" where
  "create_order P new_id now db order_create =
     (case create_order_try P new_id now db order_create of
        Inl (HTTPExc h) \<Rightarrow> (Inl (HTTPExc h), db)
      | Inl e \<Rightarrow>
          (if is_Exception e
           then Inl (HTTPExc (HTTPException 500 ''Failed to create order'')) else Inl e, db)
      | Inr (order, db') \<Rightarrow> (Inr order, db'))"

text \<open>
  \<^verbatim>\<open>
  async def get_order(order_id: str):
      try:
          collection = db.get_collection('orders')
          order = await collection.find_one({"id": order_id})
          if not order:
              raise HTTPException(status_code=404, detail="Order not found")
          return Order(**order)
      except HTTPException:
          raise
      except Exception as e:
          raise HTTPException(status_code=500, detail="Failed to fetch order")
  \<close>
\<close>

definition get_order_try ::
  "pydantic \<Rightarrow> string \<Rightarrow> int \<Rightarrow> InMemoryDB \<Rightarrow> string \<Rightarrow> exn + Order" where
  "get_order_try P new_id now db oid =
     bind_exn (py_raise (get_collection db ''orders'')) (\<lambda>collection.
     (case find_one collection [(''id'', VStr oid)] of
        None \<Rightarrow> Inl (HTTPExc (HTTPException 404 ''Order not found''))
      | Some order \<Rightarrow>
          if order = [] then Inl (HTTPExc (HTTPException 404 ''Order not found''))
          else py_raise (Order_init P new_id now order)))"

definition get_order ::
  "pydantic \<Rightarrow> string \<Rightarrow> int \<Rightarrow> InMemoryDB \<Rightarrow> string \<Rightarrow> exn + Order" where
  "get_order P new_id now db oid =
     (case get_order_try P new_id now db oid of
        Inl (HTTPExc h) \<Rightarrow> Inl (HTTPExc h)
      | Inl e \<Rightarrow>
          if is_Exception e
          then Inl (HTTPExc (HTTPException 500 ''Failed to fetch order'')) else Inl e
      | Inr order \<Rightarrow> Inr order)"










text \<open>
  \<^verbatim>\<open>
  async def startup_event():
      collection = db.get_collection('menu')
      menu_count = await collection.count_documents({})
      if menu_count == 0:
          sample_menu = [ ...five dictionaries... ]
          await collection.insert_many(sample_menu)
  \<close>
  The prices are the floats 4.50, 4.25, 4.75, 5.00 and 4.00, all exact in binary.
\<close>

definition sample_menu :: "(nat \<Rightarrow> string) \<Rightarrow> doc list" where
  "sample_menu uuid4 =
     [[(''id'', VStr (uuid4 0)),
       (''name'', VStr ''Ethiopian Yirgacheffe''),
       (''origin'', VStr ''Yirgacheffe, Ethiopia''),
       (''description'', VStr ''Bright and floral with notes of lemon and tea-like qualities''),
       (''price'', VFloat (9 / 2)),
       (''available'', VBool True)],
      [(''id'', VStr (uuid4 1)),
       (''name'', VStr ''Colombian Supremo''),
       (''origin'', VStr ''Huila, Colombia''),
       (''description'', VStr ''Medium body with chocolate and nutty undertones''),
       (''price'', VFloat (17 / 4)),
       (''available'', VBool True)],
      [(''id'', VStr (uuid4 2)),
       (''name'', VStr ''Guatemalan Antigua''),
       (''origin'', VStr ''Antigua, Guatemala''),
       (''description'', VStr ''Full-bodied with smoky, spicy notes and bright acidity''),
       (''price'', VFloat (19 / 4)),
       (''available'', VBool True)],
      [(''id'', VStr (uuid4 3)),
       (''name'', VStr ''Kenya AA''),
       (''origin'', VStr ''Central Kenya''),
       (''description'', VStr ''Wine-like acidity with blackcurrant and citrus notes''),
       (''price'', VFloat 5),
       (''available'', VBool True)],
      [(''id'', VStr (uuid4 4)),
       (''name'', VStr ''Brazil Santos''),
       (''origin'', VStr (''S'' @ [CHR 0xE3] @ ''o Paulo, Brazil'')),
       (''description'', VStr ''Smooth and balanced with chocolate and caramel sweetness''),
       (''price'', VFloat 4),
       (''available'', VBool True)]]"

definition startup_event :: "(nat \<Rightarrow> string) \<Rightarrow> InMemoryDB \<Rightarrow> py_error + InMemoryDB" where
  "startup_event uuid4 db =
     bind_exn (get_collection db ''menu'') (\<lambda>collection.
     if count_documents collection (Some []) = 0
     then (case insert_many collection (sample_menu uuid4) of
             (inserted_ids, data') \<Rightarrow> Inr (put_collection db ''menu'' data'))
     else Inr db)"

section \<open>Agent handlers\<close>

text \<open>
  The agent library \<^verbatim>\<open>ai_agents.agents\<close> is an external collaborator. An agent is what
  the handlers use of it: \<^verbatim>\<open>execute(prompt, use_tools?)\<close>, which raises or returns a
  response with the attributes \<^verbatim>\<open>success\<close>, \<^verbatim>\<open>content\<close>, \<^verbatim>\<open>metadata\<close> and
  \<^verbatim>\<open>error\<close>, and \<^verbatim>\<open>get_capabilities()\<close>, which raises or returns a list of strings.
  The constructors \<^verbatim>\<open>SearchAgent(agent_config)\<close> and \<^verbatim>\<open>ChatAgent(agent_config)\<close> are
  parameters of the handlers (they raise or return an agent), as is \<open>exc_str\<close>, Python's
  \<^verbatim>\<open>str(e)\<close> on an exception.
\<close>

record AgentResponse =
  success :: bool
  content :: string
  metadata :: doc
  error :: "string option"

record Agent =
  execute :: "string \<Rightarrow> bool option \<Rightarrow> exn + AgentResponse"
  get_capabilities :: "exn + string list"

text \<open>The module globals \<^verbatim>\<open>search_agent\<close> and \<^verbatim>\<open>chat_agent\<close>, both \<^verbatim>\<open>None\<close> at start.\<close>

record Agents =
  search_agent :: "Agent option"
  chat_agent :: "Agent option"

text \<open>
  \<^verbatim>\<open>
  class ChatRequest(BaseModel):
      message: str
      agent_type: str = "chat"
      context: Optional[dict] = None

  class ChatResponse(BaseModel):
      success: bool
      response: str
      agent_type: str
      capabilities: List[str]
      metadata: dict = Field(default_factory=dict)
      error: Optional[str] = None

  class SearchRequest(BaseModel):
      query: str
      max_results: int = 5

  class SearchResponse(BaseModel):
      success: bool
      query: str
      summary: str
      search_results: Optional[dict] = None
      sources_count: int
      error: Optional[str] = None
  \<close>
  Field names that two models share carry the prefix \<open>chat_\<close> or \<open>search_\<close> in the
  response records; \<^verbatim>\<open>context\<close> is \<open>request_context\<close>.
\<close>

record ChatRequest =
  message :: string
  agent_type :: string
  request_context :: "doc option"

record ChatResponse =
  chat_success :: bool
  response :: string
  chat_agent_type :: string
  capabilities :: "string list"
  chat_metadata :: doc
  chat_error :: "string option"

record SearchRequest =
  query :: string
  max_results :: int

record SearchResponse =
  search_success :: bool
  search_query :: string
  summary :: string
  search_results :: "doc option"
  sources_count :: int
  search_error :: "string option"

text \<open>
  \<^verbatim>\<open>
  async def chat_with_agent(request: ChatRequest):
      global search_agent, chat_agent
      try:
          if request.agent_type == "search" and search_agent is None:
              search_agent = SearchAgent(agent_config)
          elif request.agent_type == "chat" and chat_agent is None:
              chat_agent = ChatAgent(agent_config)
          agent = search_agent if request.agent_type == "search" else chat_agent
          if agent is None:
              raise HTTPException(status_code=500, detail="Failed to initialize agent")
          response = await agent.execute(request.message)
          return ChatResponse(success=response.success, response=response.content,
              agent_type=request.agent_type, capabilities=agent.get_capabilities(),
              metadata=response.metadata, error=response.error)
      except Exception as e:
          return ChatResponse(success=False, response="", agent_type=request.agent_type,
              capabilities=[], error=str(e))
  \<close>
  \<open>chat_init_agents\<close> is the \<^verbatim>\<open>if\<close>/\<^verbatim>\<open>elif\<close> that fills the globals, and
  \<open>chat_with_agent_try\<close> the \<^verbatim>\<open>try\<close> block; an assignment to a global stays when a
  later statement raises. The handler returns what it answers (\<open>Inl e\<close>: it raises \<open>e\<close>,
  which \<^verbatim>\<open>except Exception\<close> did not catch) and the globals after it.
\<close>

definition chat_init_agents ::
  "(exn + Agent) \<Rightarrow> (exn + Agent) \<Rightarrow> Agents \<Rightarrow> ChatRequest \<Rightarrow> exn + Agents" where
  "chat_init_agents SearchAgent ChatAgent globals request =
     (if agent_type request = ''search'' \<and> search_agent globals = None
      then (case SearchAgent of
              Inl e \<Rightarrow> Inl e
            | Inr a \<Rightarrow> Inr (globals\<lparr>search_agent := Some a\<rparr>))
      else if agent_type request = ''chat'' \<and> chat_agent globals = None
      then (case ChatAgent of
              Inl e \<Rightarrow> Inl e
            | Inr a \<Rightarrow> Inr (globals\<lparr>chat_agent := Some a\<rparr>))
      else Inr globals)"

definition chat_with_agent_try ::
  "(exn + Agent) \<Rightarrow> (exn + Agent) \<Rightarrow> Agents \<Rightarrow> ChatRequest
     \<Rightarrow> (exn + ChatResponse) \<times> Agents" where
  "chat_with_agent_try SearchAgent ChatAgent globals request =
     (case chat_init_agents SearchAgent ChatAgent globals request of
        Inl e \<Rightarrow> (Inl e, globals)
      | Inr globals' \<Rightarrow>
          (case (if agent_type request = ''search''
                 then search_agent globals' else chat_agent globals') of
             None \<Rightarrow> (Inl (HTTPExc (HTTPException 500 ''Failed to initialize agent'')), globals')
           | Some agent \<Rightarrow>
               (bind_exn (execute agent (message request) None) (\<lambda>r.
                bind_exn (get_capabilities agent) (\<lambda>caps.
                Inr \<lparr>chat_success = success r, response = content r,
                     chat_agent_type = agent_type request, capabilities = caps,
                     chat_metadata = metadata r, chat_error = error r\<rparr>)),
                globals')))"

definition chat_with_agent ::
  "(exn \<Rightarrow> string) \<Rightarrow> (exn + Agent) \<Rightarrow> (exn + Agent) \<Rightarrow> Agents \<Rightarrow> ChatRequest
     \<Rightarrow> (exn + ChatResponse) \<times> Agents" where
  "chat_with_agent exc_str SearchAgent ChatAgent globals request =
     (case chat_with_agent_try SearchAgent ChatAgent globals request of
        (Inl e, globals') \<Rightarrow>
          (if is_Exception e
           then Inr \<lparr>chat_success = False, response = [],
                     chat_agent_type = agent_type request, capabilities = [],
                     chat_metadata = [], chat_error = Some (exc_str e)\<rparr>
           else Inl e, globals')
      | (Inr r, globals') \<Rightarrow> (Inr r, globals'))"

text \<open>
  \<^verbatim>\<open>
  async def search_and_summarize(request: SearchRequest):
      global search_agent
      try:
          if search_agent is None:
              search_agent = SearchAgent(agent_config)
          search_prompt = f"Search for information about: {request.query}. Provide a comprehensive summary with key findings."
          result = await search_agent.execute(search_prompt, use_tools=True)
          if result.success:
              return SearchResponse(success=True, query=request.query,
                  summary=result.content, search_results=result.metadata,
                  sources_count=result.metadata.get("tools_used", 0))
          else:
              return SearchResponse(success=False, query=request.query, summary="",
                  sources_count=0, error=result.error)
      except Exception as e:
          return SearchResponse(success=False, query=request.query, summary="",
              sources_count=0, error=str(e))
  \<close>
  The metadata is free-form, so \<^verbatim>\<open>sources_count\<close> goes through the validation of an
  integer field, which can raise.
\<close>

definition search_prompt :: "SearchRequest \<Rightarrow> string" where
  "search_prompt request =
     ''Search for information about: '' @ query request
       @ ''. Provide a comprehensive summary with key findings.''"

definition search_and_summarize_try ::
  "pydantic \<Rightarrow> (exn + Agent) \<Rightarrow> Agents \<Rightarrow> SearchRequest
     \<Rightarrow> (exn + SearchResponse) \<times> Agents" where
  "search_and_summarize_try P SearchAgent globals request =
     (case (case search_agent globals of
              None \<Rightarrow> (case SearchAgent of
                          Inl e \<Rightarrow> Inl e
                        | Inr a \<Rightarrow> Inr (a, globals\<lparr>search_agent := Some a\<rparr>))
            | Some a \<Rightarrow> Inr (a, globals)) of
        Inl e \<Rightarrow> (Inl e, globals)
      | Inr (agent, globals') \<Rightarrow>
          (bind_exn (execute agent (search_prompt request) (Some True)) (\<lambda>result.
           if success result
           then bind_exn (py_raise (default_field (validate_int P) (metadata result)
                                      ''tools_used'' 0)) (\<lambda>n.
                Inr \<lparr>search_success = True, search_query = query request,
                     summary = content result, search_results = Some (metadata result),
                     sources_count = n, search_error = None\<rparr>)
           else Inr \<lparr>search_success = False, search_query = query request,
                     summary = [], search_results = None,
                     sources_count = 0, search_error = error result\<rparr>),
           globals'))"

definition search_and_summarize ::
  "(exn \<Rightarrow> string) \<Rightarrow> pydantic \<Rightarrow> (exn + Agent) \<Rightarrow> Agents \<Rightarrow> SearchRequest
     \<Rightarrow> (exn + SearchResponse) \<times> Agents" where
  "search_and_summarize exc_str P SearchAgent globals request =
     (case search_and_summarize_try P SearchAgent globals request of
        (Inl e, globals') \<Rightarrow>
          (if is_Exception e
           then Inr \<lparr>search_success = False, search_query = query request,
                     summary = [], search_results = None,
                     sources_count = 0, search_error = Some (exc_str e)\<rparr>
           else Inl e, globals')
      | (Inr r, globals') \<Rightarrow> (Inr r, globals'))"

section \<open>Example inputs\<close>

text \<open>
  Inputs for the examples below: a pydantic that coerces nothing, a stand-in for
  \<^verbatim>\<open>str(e)\<close>, an agent whose \<^verbatim>\<open>execute\<close> raises a given exception, an agent whose
  \<^verbatim>\<open>execute\<close> returns a given response, and a driver database that holds a given list of
  menu documents and answers a query with the first \<open>n\<close> that match it.
\<close>

definition no_coercion :: pydantic where
  "no_coercion =
     \<lparr>coerce_str = (\<lambda>v. None), coerce_int = (\<lambda>v. None), coerce_float = (\<lambda>v. None),
      str_to_bool = (\<lambda>s. None), coerce_datetime = (\<lambda>v. None)\<rparr>"

definition exc_tag :: "exn \<Rightarrow> string" where
  "exc_tag e =
     (case e of
        HTTPExc h \<Rightarrow> detail h
      | PyExc p \<Rightarrow> ''error''
      | LibraryExc tag \<Rightarrow> tag
      | BaseExc tag \<Rightarrow> tag)"

definition raising_agent :: "exn \<Rightarrow> Agent" where
  "raising_agent e =
     \<lparr>execute = (\<lambda>prompt use_tools. Inl e), get_capabilities = Inr [''chat'']\<rparr>"

definition answering_agent :: "AgentResponse \<Rightarrow> Agent" where
  "answering_agent r =
     \<lparr>execute = (\<lambda>prompt use_tools. Inr r), get_capabilities = Inr [''web_search'']\<rparr>"


section \<open>The specification's reading of a filter\<close>

text \<open>
  The specification's words for a match: a filter is a mapping of field to value, and a
  record matches when every filter field is present in the record with an equal value
  (a field absent from the record is a non-match).
\<close>

definition spec_matches :: "doc \<Rightarrow> doc \<Rightarrow> bool" where
  "spec_matches record flt \<longleftrightarrow>
     (\<forall>(k, v) \<in> set flt. case map_of record k of None \<Rightarrow> False | Some x \<Rightarrow> py_eq x v)"

section \<open>The loops of the store\<close>

lemma matches_query_spec: "matches_query item q = spec_matches item q"
proof (induction q)
  case Nil
  show ?case by (simp add: spec_matches_def)
next
  case (Cons kv q)
  obtain k v where kv: "kv = (k, v)" by (cases kv)
  show ?case
  proof (cases "map_of item k")
    case None
    then show ?thesis by (simp add: kv spec_matches_def)
  next
    case (Some x)
    with Cons show ?thesis by (simp add: kv spec_matches_def)
  qed
qed

lemma find_loop_filter:
  "find_loop data q filtered = filtered @ filter (\<lambda>item. matches_query item q) data"
  by (induction data arbitrary: filtered) auto

lemma find_one_filter:
  "find_one data q =
     (case filter (\<lambda>item. matches_query item q) data of [] \<Rightarrow> None | item # _ \<Rightarrow> Some item)"
  by (induction data) auto

lemma count_loop_filter:
  "count_loop data q count = count + length (filter (\<lambda>item. matches_query item q) data)"
  by (induction data arbitrary: count) auto

lemma find_coll_None: "cursor_data (find_coll data None) = data"
  by (simp add: find_coll_def)

lemma count_documents_empty_query: "count_documents data (Some []) = length data"
  by (simp add: count_documents_def count_loop_filter)

section \<open>Find and find_one\<close>

text \<open>
  Claim C6. For every collection and every filter, \<open>find\<close> returns exactly the records
  that match the filter in the specification's sense (every filter field present with an
  equal value), in insertion order, and \<open>find_one\<close> returns the first of them, or
  \<^verbatim>\<open>None\<close> when there is none.
\<close>

theorem find_returns_matching_records:
  "cursor_data (find_coll data (Some flt)) = filter (\<lambda>record. spec_matches record flt) data \<and>
   find_one data flt =
     (case filter (\<lambda>record. spec_matches record flt) data of
        [] \<Rightarrow> None
      | record # _ \<Rightarrow> Some record)"
  by (simp add: find_coll_def find_loop_filter find_one_filter matches_query_spec)

text \<open>
  Four records, one without the field and one with the value \<^verbatim>\<open>False\<close>: the filter
  \<^verbatim>\<open>{"available": True}\<close> keeps the first and the last; on the two others alone
  \<open>find_one\<close> finds nothing.
\<close>

theorem find_returns_matching_records_witness:
  "cursor_data (find_coll
       [[(''id'', VStr ''a''), (''available'', VBool True)],
        [(''id'', VStr ''b'')],
        [(''id'', VStr ''c''), (''available'', VBool False)],
        [(''id'', VStr ''d''), (''available'', VBool True)]]
       (Some [(''available'', VBool True)]))
     = [[(''id'', VStr ''a''), (''available'', VBool True)],
        [(''id'', VStr ''d''), (''available'', VBool True)]] \<and>
   find_one
       [[(''id'', VStr ''a''), (''available'', VBool True)],
        [(''id'', VStr ''b'')],
        [(''id'', VStr ''c''), (''available'', VBool False)],
        [(''id'', VStr ''d''), (''available'', VBool True)]]
       [(''available'', VBool True)]
     = Some [(''id'', VStr ''a''), (''available'', VBool True)] \<and>
   find_one
       [[(''id'', VStr ''b'')], [(''id'', VStr ''c''), (''available'', VBool False)]]
       [(''available'', VBool True)]
     = None"
  using find_returns_matching_records
          [of "[[(''id'', VStr ''a''), (''available'', VBool True)],
                [(''id'', VStr ''b'')],
                [(''id'', VStr ''c''), (''available'', VBool False)],
                [(''id'', VStr ''d''), (''available'', VBool True)]]"
              "[(''available'', VBool True)]"]
        find_returns_matching_records
          [of "[[(''id'', VStr ''b'')], [(''id'', VStr ''c''), (''available'', VBool False)]]"
              "[(''available'', VBool True)]"]
  by (simp add: spec_matches_def py_eq_def)

section \<open>The cursor\<close>

lemma to_list_None: "to_list cursor None = cursor_data cursor"
  by (simp add: to_list_def)

lemma to_list_positive: "0 < n \<Longrightarrow> to_list cursor (Some n) = take (nat n) (cursor_data cursor)"
  by (simp add: to_list_def slice_to_def)

text \<open>
  Claim C7. \<open>to_list\<close> with a limit should return the first limit-many records. With
  the limit 0 the test \<^verbatim>\<open>if length\<close> is false, and a cursor over two records returns
  both of them, where the first 0 records are the empty list.
\<close>

theorem to_list_zero_returns_all:
  "to_list (InMemoryCursor [[(''id'', VStr ''a'')], [(''id'', VStr ''b'')]]) (Some 0)
     = [[(''id'', VStr ''a'')], [(''id'', VStr ''b'')]] \<and>
   take 0 [[(''id'', VStr ''a'')], [(''id'', VStr ''b'')]] = ([] :: doc list)"
  by (simp add: to_list_def)

section \<open>Inserts\<close>

text \<open>
  Claim C9. In a collection of the database, \<open>insert_one\<close> appends the document at the
  end (whatever ids are already stored) and returns the document's id; \<open>insert_many\<close>
  appends the documents in order and returns their ids in order. The records stored before
  stay, in their positions, and every other collection is unchanged.
\<close>

theorem insert_appends:
  assumes "get_collection db coll = Inr data"
  shows "\<exists>db1 db2.
     db_insert_one db coll document = Inr (dict_get document ''id'', db1) \<and>
     get_collection db1 coll = Inr (data @ [document]) \<and>
     (\<forall>other. other \<noteq> coll \<longrightarrow> get_collection db1 other = get_collection db other) \<and>
     db_insert_many db coll documents = Inr (map (\<lambda>d. dict_get d ''id'') documents, db2) \<and>
     get_collection db2 coll = Inr (data @ documents) \<and>
     (\<forall>other. other \<noteq> coll \<longrightarrow> get_collection db2 other = get_collection db other)"
  using assms
  by (auto simp: db_insert_one_def db_insert_many_def insert_one_def insert_many_def
        get_collection_def put_collection_def split: if_splits)

text \<open>A document with an id that is already stored is appended all the same.\<close>

theorem insert_appends_witness:
  "get_collection \<lparr>menu = [], orders = [[(''id'', VStr ''o1'')]], status_checks = []\<rparr> ''orders''
     = Inr [[(''id'', VStr ''o1'')]] \<and>
   (\<exists>db1 db2.
     db_insert_one \<lparr>menu = [], orders = [[(''id'', VStr ''o1'')]], status_checks = []\<rparr>
         ''orders'' [(''id'', VStr ''o1''), (''quantity'', VInt 2)]
       = Inr (VStr ''o1'', db1) \<and>
     get_collection db1 ''orders''
       = Inr [[(''id'', VStr ''o1'')], [(''id'', VStr ''o1''), (''quantity'', VInt 2)]] \<and>
     db_insert_many \<lparr>menu = [], orders = [[(''id'', VStr ''o1'')]], status_checks = []\<rparr>
         ''orders'' [[(''id'', VStr ''o2'')], [(''quantity'', VInt 1)]]
       = Inr ([VStr ''o2'', VNone], db2) \<and>
     get_collection db2 ''orders''
       = Inr [[(''id'', VStr ''o1'')], [(''id'', VStr ''o2'')], [(''quantity'', VInt 1)]])"
proof -
  have h: "get_collection \<lparr>menu = [], orders = [[(''id'', VStr ''o1'')]], status_checks = []\<rparr>
      ''orders'' = Inr [[(''id'', VStr ''o1'')]]"
    by (simp add: get_collection_def)
  from insert_appends [OF h, of "[(''id'', VStr ''o1''), (''quantity'', VInt 2)]"
      "[[(''id'', VStr ''o2'')], [(''quantity'', VInt 1)]]"]
  show ?thesis using h by (simp add: dict_get_def) blast
qed

section \<open>Startup seeding\<close>

lemma length_sample_menu: "length (sample_menu uuid4) = 5"
  by (simp add: sample_menu_def)

text \<open>
  Claim C3. Startup seeding: when the menu collection holds a record, startup leaves the
  database as it is; when it is empty, startup makes it the five-record catalog and
  changes nothing else; and a startup that follows a startup inserts nothing.
\<close>

theorem startup_seeding:
  "(menu db \<noteq> [] \<longrightarrow> startup_event uuid4 db = Inr db) \<and>
   (menu db = [] \<longrightarrow>
      startup_event uuid4 db = Inr (db\<lparr>menu := sample_menu uuid4\<rparr>) \<and>
      length (sample_menu uuid4) = 5) \<and>
   (\<forall>db'. startup_event uuid4 db = Inr db' \<longrightarrow> startup_event uuid4' db' = Inr db')"
  by (auto simp: startup_event_def bind_exn_def get_collection_def put_collection_def
        count_documents_empty_query insert_many_def length_sample_menu sample_menu_def)

theorem startup_seeding_witness:
  "menu InMemoryDB_init = [] \<and>
   startup_event (\<lambda>k. replicate (Suc k) CHR ''m'') InMemoryDB_init
     = Inr \<lparr>menu = sample_menu (\<lambda>k. replicate (Suc k) CHR ''m''), orders = [],
            status_checks = []\<rparr> \<and>
   length (sample_menu (\<lambda>k. replicate (Suc k) CHR ''m'')) = 5 \<and>
   menu \<lparr>menu = sample_menu (\<lambda>k. replicate (Suc k) CHR ''m''), orders = [],
         status_checks = []\<rparr> \<noteq> [] \<and>
   startup_event (\<lambda>k. replicate (Suc k) CHR ''n'')
       \<lparr>menu = sample_menu (\<lambda>k. replicate (Suc k) CHR ''m''), orders = [],
        status_checks = []\<rparr>
     = Inr \<lparr>menu = sample_menu (\<lambda>k. replicate (Suc k) CHR ''m''), orders = [],
            status_checks = []\<rparr>"
  using startup_seeding [of InMemoryDB_init "(\<lambda>k. replicate (Suc k) CHR ''m'')"
          "(\<lambda>k. replicate (Suc k) CHR ''n'')"]
        startup_seeding [of "\<lparr>menu = sample_menu (\<lambda>k. replicate (Suc k) CHR ''m''), orders = [],
            status_checks = []\<rparr>" "(\<lambda>k. replicate (Suc k) CHR ''n'')"
          "(\<lambda>k. replicate (Suc k) CHR ''n'')"]
  by (simp add: InMemoryDB_init_def sample_menu_def)


section \<open>Placing and fetching an order\<close>

lemma bind_exn_Inr:
  "bind_exn m f = Inr y \<longleftrightarrow> (\<exists>x. m = Inr x \<and> f x = Inr y)"
  by (cases m) (auto simp: bind_exn_def)

lemma py_raise_Inr: "py_raise m = Inr x \<longleftrightarrow> m = Inr x"
  by (cases m) (auto simp: py_raise_def)

lemma dict_item_Inr: "dict_item d k = Inr v \<longleftrightarrow> map_of d k = Some v"
  by (auto simp: dict_item_def split: option.splits)

text \<open>A value of the declared type passes validation unchanged, whatever the coercions.\<close>

lemma validate_declared:
  "validate_str P (VStr s) = Inr s"
  "validate_int P (VInt n) = Inr n"
  "validate_float P (VFloat r) = Inr r"
  "validate_bool P (VBool b) = Inr b"
  "validate_datetime P (VDatetime t) = Inr t"
  by (simp_all add: validate_str_def validate_int_def validate_float_def validate_bool_def
        validate_datetime_def)




lemma py_eq_VStr: "py_eq v (VStr s) \<longleftrightarrow> v = VStr s"
  by (cases v) (auto simp: py_eq_def)


lemma find_one_None: "find_one data q = None \<longleftrightarrow> (\<forall>item \<in> set data. \<not> matches_query item q)"
  by (induction data) auto

lemma find_one_append_fresh:
  "\<forall>r \<in> set data. \<not> matches_query r q \<Longrightarrow> matches_query d q \<Longrightarrow>
     find_one (data @ [d]) q = Some d"
  by (induction data) auto

text \<open>The keyword arguments that \<open>create_order\<close> builds validate exactly when the product
  validates as a float and the item's name as a string, and then give this order.\<close>

lemma Order_init_order_data:
  "Order_init P new_id now
     (AList.update ''status'' (VStr ''pending'')
       (AList.update ''total_price'' product
         (AList.update ''coffee_name'' item_name (OrderCreate_dict oc)))) = Inr order
   \<longleftrightarrow> (\<exists>t nm. validate_float P product = Inr t \<and> validate_str P item_name = Inr nm \<and>
        order = \<lparr>order_id = new_id, customer_name = req_customer_name oc,
                 coffee_id = req_coffee_id oc, coffee_name = nm,
                 quantity = req_quantity oc, total_price = t,
                 timestamp = now, status = ''pending''\<rparr>)"
  by (auto simp: Order_init_def OrderCreate_dict_def bind_exn_Inr default_field_def
        required_field_def validate_declared)

lemma Order_init_Order_dict: "Order_init P new_id now (Order_dict order) = Inr order"
  by (simp add: Order_init_def Order_dict_def bind_exn_def default_field_def
        required_field_def validate_declared)

lemma create_order_try_Inr:
  "create_order_try P new_id now db oc = Inr (order, db') \<longleftrightarrow>
     (\<exists>item pv product nv nm t.
        find_one (menu db) [(''id'', VStr (req_coffee_id oc)), (''available'', VBool True)]
          = Some item \<and>
        map_of item ''price'' = Some pv \<and>
        py_mul pv (req_quantity oc) = Inr product \<and>
        validate_float P product = Inr t \<and>
        map_of item ''name'' = Some nv \<and>
        validate_str P nv = Inr nm \<and>
        order = \<lparr>order_id = new_id, customer_name = req_customer_name oc,
                 coffee_id = req_coffee_id oc, coffee_name = nm,
                 quantity = req_quantity oc, total_price = t,
                 timestamp = now, status = ''pending''\<rparr> \<and>
        db' = db\<lparr>orders := orders db @ [Order_dict order]\<rparr>)"
  unfolding create_order_try_def
  apply (simp add: bind_exn_Inr py_raise_Inr get_collection_def split: option.splits)
  apply (auto simp: bind_exn_Inr py_raise_Inr dict_item_Inr Order_init_order_data
      insert_one_def put_collection_def)
  done

lemma create_order_Inr:
  "create_order P new_id now db oc = (Inr order, db') \<longleftrightarrow>
     create_order_try P new_id now db oc = Inr (order, db')"
  by (auto simp: create_order_def split: sum.splits exn.splits prod.splits if_splits)

lemmas handler_defs =
  create_order_def create_order_try_def bind_exn_def py_raise_def get_collection_def
  put_collection_def dict_item_def py_mul_def Order_init_def OrderCreate_dict_def
  Order_dict_def default_field_def required_field_def validate_declared insert_one_def
  py_eq_def



text \<open>
  Claim C2. When every menu record with the requested coffee id has the available flag
  \<^verbatim>\<open>False\<close> (in particular when no record has that id), \<open>create_order\<close> answers with the
  404 error and the database, the orders collection included, is as before.
\<close>

theorem create_order_not_found:
  assumes "\<forall>item \<in> set (menu db).
     map_of item ''id'' = Some (VStr (req_coffee_id oc)) \<longrightarrow>
     map_of item ''available'' = Some (VBool False)"
  shows "create_order P new_id now db oc
     = (Inl (HTTPExc (HTTPException 404 ''Coffee item not found or unavailable'')), db)"
proof -
  have "\<forall>item \<in> set (menu db).
      \<not> matches_query item [(''id'', VStr (req_coffee_id oc)), (''available'', VBool True)]"
    using assms by (auto simp: py_eq_VStr py_eq_def split: option.splits)
  then have "find_one (menu db) [(''id'', VStr (req_coffee_id oc)), (''available'', VBool True)]
      = None"
    by (simp only: find_one_None)
  then show ?thesis
    by (simp add: create_order_def create_order_try_def bind_exn_def py_raise_def
          get_collection_def)
qed

text \<open>An order for the unavailable item, and an order for an id the menu does not have.\<close>

theorem create_order_not_found_witness:
  "create_order no_coercion ''o2'' 8
     \<lparr>menu = [[(''id'', VStr ''m1''), (''name'', VStr ''Kenya AA''), (''price'', VFloat 5),
               (''available'', VBool False)]],
      orders = [[(''id'', VStr ''o1'')]], status_checks = []\<rparr>
     \<lparr>req_customer_name = ''A'', req_coffee_id = ''m1'', req_quantity = 1\<rparr>
   = (Inl (HTTPExc (HTTPException 404 ''Coffee item not found or unavailable'')),
      \<lparr>menu = [[(''id'', VStr ''m1''), (''name'', VStr ''Kenya AA''), (''price'', VFloat 5),
               (''available'', VBool False)]],
       orders = [[(''id'', VStr ''o1'')]], status_checks = []\<rparr>) \<and>
   create_order no_coercion ''o2'' 8
     \<lparr>menu = [[(''id'', VStr ''m1''), (''name'', VStr ''Kenya AA''), (''price'', VFloat 5),
               (''available'', VBool False)]],
      orders = [[(''id'', VStr ''o1'')]], status_checks = []\<rparr>
     \<lparr>req_customer_name = ''A'', req_coffee_id = ''invalid-coffee-id'', req_quantity = 1\<rparr>
   = (Inl (HTTPExc (HTTPException 404 ''Coffee item not found or unavailable'')),
      \<lparr>menu = [[(''id'', VStr ''m1''), (''name'', VStr ''Kenya AA''), (''price'', VFloat 5),
               (''available'', VBool False)]],
       orders = [[(''id'', VStr ''o1'')]], status_checks = []\<rparr>)"
  using create_order_not_found
      [of "\<lparr>menu = [[(''id'', VStr ''m1''), (''name'', VStr ''Kenya AA''), (''price'', VFloat 5),
               (''available'', VBool False)]],
            orders = [[(''id'', VStr ''o1'')]], status_checks = []\<rparr>"
          "\<lparr>req_customer_name = ''A'', req_coffee_id = ''m1'', req_quantity = 1\<rparr>"
          no_coercion "''o2''" 8]
    create_order_not_found
      [of "\<lparr>menu = [[(''id'', VStr ''m1''), (''name'', VStr ''Kenya AA''), (''price'', VFloat 5),
               (''available'', VBool False)]],
            orders = [[(''id'', VStr ''o1'')]], status_checks = []\<rparr>"
          "\<lparr>req_customer_name = ''A'', req_coffee_id = ''invalid-coffee-id'',
             req_quantity = 1\<rparr>"
          no_coercion "''o2''" 8]
  by simp

text \<open>
  Claim C4. When \<open>create_order\<close> answers with an order whose generated id no stored order
  has yet, \<open>get_order\<close> with that id on the database it leaves answers with the same order:
  the same id, customer name, coffee id, coffee name, quantity and total price (and the
  same timestamp and status).
\<close>

theorem get_order_after_create:
  assumes "create_order P new_id now db oc = (Inr order, db')"
    and "\<forall>r \<in> set (orders db). map_of r ''id'' \<noteq> Some (VStr new_id)"
  shows "get_order P new_id' now' db' (order_id order) = Inr order"
proof -
  from assms(1) have oid: "order_id order = new_id"
    and db': "db' = db\<lparr>orders := orders db @ [Order_dict order]\<rparr>"
    unfolding create_order_Inr create_order_try_Inr by auto
  have "\<forall>r \<in> set (orders db). \<not> matches_query r [(''id'', VStr new_id)]"
    using assms(2) by (auto simp: py_eq_VStr split: option.splits)
  moreover have "matches_query (Order_dict order) [(''id'', VStr new_id)]"
    by (simp add: Order_dict_def oid py_eq_def)
  ultimately have "find_one (orders db @ [Order_dict order]) [(''id'', VStr new_id)]
      = Some (Order_dict order)"
    by (rule find_one_append_fresh)
  moreover have "Order_dict order \<noteq> []" by (simp add: Order_dict_def)
  ultimately show ?thesis
    by (simp add: get_order_def get_order_try_def bind_exn_def py_raise_def
          get_collection_def db' oid Order_init_Order_dict)
qed

text \<open>
  The scenario of the specification: the seeded menu and an earlier order in the store, an
  order of two cups of the menu's first item, and the fetch of that order.
\<close>

theorem get_order_after_create_witness:
  "create_order no_coercion ''o1'' 7
     \<lparr>menu = sample_menu (\<lambda>k. replicate (Suc k) CHR ''m''), orders = [[(''id'', VStr ''o0'')]], status_checks = []\<rparr>
     \<lparr>req_customer_name = ''A'', req_coffee_id = ''m'', req_quantity = 2\<rparr>
   = (Inr \<lparr>order_id = ''o1'', customer_name = ''A'', coffee_id = ''m'',
            coffee_name = ''Ethiopian Yirgacheffe'', quantity = 2, total_price = 9,
            timestamp = 7, status = ''pending''\<rparr>,
      \<lparr>menu = sample_menu (\<lambda>k. replicate (Suc k) CHR ''m''),
       orders = [[(''id'', VStr ''o0'')],
                 Order_dict \<lparr>order_id = ''o1'', customer_name = ''A'', coffee_id = ''m'',
            coffee_name = ''Ethiopian Yirgacheffe'', quantity = 2, total_price = 9,
            timestamp = 7, status = ''pending''\<rparr>],
       status_checks = []\<rparr>) \<and>
   get_order no_coercion ''o2'' 8
     \<lparr>menu = sample_menu (\<lambda>k. replicate (Suc k) CHR ''m''),
      orders = [[(''id'', VStr ''o0'')],
                Order_dict \<lparr>order_id = ''o1'', customer_name = ''A'', coffee_id = ''m'',
            coffee_name = ''Ethiopian Yirgacheffe'', quantity = 2, total_price = 9,
            timestamp = 7, status = ''pending''\<rparr>],
      status_checks = []\<rparr> ''o1''
   = Inr \<lparr>order_id = ''o1'', customer_name = ''A'', coffee_id = ''m'',
            coffee_name = ''Ethiopian Yirgacheffe'', quantity = 2, total_price = 9,
            timestamp = 7, status = ''pending''\<rparr>"
proof -
  have r2: "float_of_int 2 = Inr 2" by code_simp
  have r9: "float_mul (9 / 2) 2 = 9" by code_simp
  have h: "create_order no_coercion ''o1'' 7
     \<lparr>menu = sample_menu (\<lambda>k. replicate (Suc k) CHR ''m''), orders = [[(''id'', VStr ''o0'')]], status_checks = []\<rparr>
     \<lparr>req_customer_name = ''A'', req_coffee_id = ''m'', req_quantity = 2\<rparr>
   = (Inr \<lparr>order_id = ''o1'', customer_name = ''A'', coffee_id = ''m'',
            coffee_name = ''Ethiopian Yirgacheffe'', quantity = 2, total_price = 9,
            timestamp = 7, status = ''pending''\<rparr>,
      \<lparr>menu = sample_menu (\<lambda>k. replicate (Suc k) CHR ''m''),
       orders = [[(''id'', VStr ''o0'')],
                 Order_dict \<lparr>order_id = ''o1'', customer_name = ''A'', coffee_id = ''m'',
            coffee_name = ''Ethiopian Yirgacheffe'', quantity = 2, total_price = 9,
            timestamp = 7, status = ''pending''\<rparr>],
       status_checks = []\<rparr>)"
    by (simp add: handler_defs sample_menu_def r2 r9)
  have f: "\<forall>r \<in> set (orders \<lparr>menu = sample_menu (\<lambda>k. replicate (Suc k) CHR ''m''),
      orders = [[(''id'', VStr ''o0'')]], status_checks = []\<rparr>).
        map_of r ''id'' \<noteq> Some (VStr ''o1'')"
    by simp
  from get_order_after_create [OF h f, of "''o2''" 8] show ?thesis
    using h by simp
qed


section \<open>The menu\<close>

text \<open>
  What the menu query selects in the in-memory store, were the call of \<open>find\<close> awaited:
  the first 100 records that match the filter, each of them with an \<^verbatim>\<open>available\<close>
  field equal to \<^verbatim>\<open>True\<close>.
\<close>

lemma menu_query_selection:
  "to_list (find_coll data (Some q)) (Some 100)
     = take 100 (filter (\<lambda>record. spec_matches record q) data)"
  by (simp add: to_list_positive find_coll_def find_loop_filter matches_query_spec)

lemma menu_query_available:
  assumes "r \<in> set (to_list (find_coll data (Some [(''available'', VBool True)])) (Some 100))"
  shows "\<exists>v. map_of r ''available'' = Some v \<and> py_eq v (VBool True)"
proof -
  from assms
  have "r \<in> set (filter (\<lambda>record. spec_matches record [(''available'', VBool True)]) data)"
    unfolding menu_query_selection by (rule in_set_takeD)
  then show ?thesis by (auto simp: spec_matches_def split: option.splits)
qed












section \<open>Chat and search\<close>

text \<open>
  Claim C8, as stated, says that every failure of the agent is returned as a payload. An
  agent whose \<^verbatim>\<open>execute\<close> raises \<^verbatim>\<open>asyncio.CancelledError\<close>, which is not an instance of
  \<^verbatim>\<open>Exception\<close>, is not caught: both handlers raise it.
\<close>

theorem agent_cancellation_propagates:
  "fst (chat_with_agent exc_tag
      (Inr (raising_agent (BaseExc ''CancelledError'')))
      (Inr (raising_agent (BaseExc ''CancelledError'')))
      \<lparr>search_agent = None, chat_agent = None\<rparr>
      \<lparr>message = ''hi'', agent_type = ''chat'', request_context = None\<rparr>)
   = Inl (BaseExc ''CancelledError'') \<and>
   fst (search_and_summarize exc_tag no_coercion
      (Inr (raising_agent (BaseExc ''CancelledError'')))
      \<lparr>search_agent = None, chat_agent = None\<rparr>
      \<lparr>query = ''coffee'', max_results = 5\<rparr>)
   = Inl (BaseExc ''CancelledError'')"
  by (simp add: chat_with_agent_def chat_with_agent_try_def chat_init_agents_def
        search_and_summarize_def search_and_summarize_try_def bind_exn_def raising_agent_def)

text \<open>
  Claim C8, amended. In \<open>chat_with_agent\<close> and \<open>search_and_summarize\<close>, when the \<^verbatim>\<open>try\<close>
  block raises an exception \<open>e\<close> that is an instance of \<^verbatim>\<open>Exception\<close> (raised by the
  agent's constructor, by \<^verbatim>\<open>execute\<close> or \<^verbatim>\<open>get_capabilities\<close>, or by the handler
  itself), the handler answers with a payload that has \<^verbatim>\<open>success\<close> false and \<^verbatim>\<open>error\<close>
  set to \<^verbatim>\<open>str(e)\<close>. An exception that is not an instance of \<^verbatim>\<open>Exception\<close> is raised
  by the handler, and the handler raises nothing else: it never answers with an
  \<^verbatim>\<open>HTTPException\<close>. A payload has \<^verbatim>\<open>success\<close> true only when the agent's
  \<^verbatim>\<open>execute\<close> returned a response that reports success, so a reported failure gives
  \<^verbatim>\<open>success\<close> false as well.
\<close>

theorem agent_failures_folded:
  "(\<exists>res g'. chat_with_agent exc_str SearchAgent ChatAgent g req = (res, g') \<and>
      (\<forall>e. fst (chat_with_agent_try SearchAgent ChatAgent g req) = Inl e \<longrightarrow>
           is_Exception e \<longrightarrow>
           (\<exists>r. res = Inr r \<and> \<not> chat_success r \<and> chat_error r = Some (exc_str e))) \<and>
      (\<forall>e. fst (chat_with_agent_try SearchAgent ChatAgent g req) = Inl e \<longrightarrow>
           \<not> is_Exception e \<longrightarrow> res = Inl e) \<and>
      (\<forall>e. res = Inl e \<longrightarrow> \<not> is_Exception e) \<and>
      (\<forall>r. res = Inr r \<longrightarrow> chat_success r \<longrightarrow>
         (\<exists>a resp. (if agent_type req = ''search'' then search_agent g' else chat_agent g')
                     = Some a \<and>
                   execute a (message req) None = Inr resp \<and> success resp))) \<and>
   (\<exists>res g'. search_and_summarize exc_str P SearchAgent g sreq = (res, g') \<and>
      (\<forall>e. fst (search_and_summarize_try P SearchAgent g sreq) = Inl e \<longrightarrow>
           is_Exception e \<longrightarrow>
           (\<exists>r. res = Inr r \<and> \<not> search_success r \<and> search_error r = Some (exc_str e))) \<and>
      (\<forall>e. fst (search_and_summarize_try P SearchAgent g sreq) = Inl e \<longrightarrow>
           \<not> is_Exception e \<longrightarrow> res = Inl e) \<and>
      (\<forall>e. res = Inl e \<longrightarrow> \<not> is_Exception e) \<and>
      (\<forall>r. res = Inr r \<longrightarrow> search_success r \<longrightarrow>
         (\<exists>a resp. search_agent g' = Some a \<and>
                   execute a (search_prompt sreq) (Some True) = Inr resp \<and> success resp)))"
proof (rule conjI)
  show "\<exists>res g'. chat_with_agent exc_str SearchAgent ChatAgent g req = (res, g') \<and>
      (\<forall>e. fst (chat_with_agent_try SearchAgent ChatAgent g req) = Inl e \<longrightarrow>
           is_Exception e \<longrightarrow>
           (\<exists>r. res = Inr r \<and> \<not> chat_success r \<and> chat_error r = Some (exc_str e))) \<and>
      (\<forall>e. fst (chat_with_agent_try SearchAgent ChatAgent g req) = Inl e \<longrightarrow>
           \<not> is_Exception e \<longrightarrow> res = Inl e) \<and>
      (\<forall>e. res = Inl e \<longrightarrow> \<not> is_Exception e) \<and>
      (\<forall>r. res = Inr r \<longrightarrow> chat_success r \<longrightarrow>
         (\<exists>a resp. (if agent_type req = ''search'' then search_agent g' else chat_agent g')
                     = Some a \<and>
                   execute a (message req) None = Inr resp \<and> success resp))"
    by (auto simp: chat_with_agent_def chat_with_agent_try_def chat_init_agents_def
          bind_exn_def split: sum.splits option.splits if_splits prod.splits)
next
  show "\<exists>res g'. search_and_summarize exc_str P SearchAgent g sreq = (res, g') \<and>
      (\<forall>e. fst (search_and_summarize_try P SearchAgent g sreq) = Inl e \<longrightarrow>
           is_Exception e \<longrightarrow>
           (\<exists>r. res = Inr r \<and> \<not> search_success r \<and> search_error r = Some (exc_str e))) \<and>
      (\<forall>e. fst (search_and_summarize_try P SearchAgent g sreq) = Inl e \<longrightarrow>
           \<not> is_Exception e \<longrightarrow> res = Inl e) \<and>
      (\<forall>e. res = Inl e \<longrightarrow> \<not> is_Exception e) \<and>
      (\<forall>r. res = Inr r \<longrightarrow> search_success r \<longrightarrow>
         (\<exists>a resp. search_agent g' = Some a \<and>
                   execute a (search_prompt sreq) (Some True) = Inr resp \<and> success resp))"
    by (auto simp: search_and_summarize_def search_and_summarize_try_def
          bind_exn_def py_raise_def split: sum.splits option.splits if_splits prod.splits)
qed

text \<open>
  A chat agent whose \<^verbatim>\<open>execute\<close> raises an \<^verbatim>\<open>Exception\<close>, and a search agent whose
  \<^verbatim>\<open>execute\<close> reports a failure: both requests are answered with a payload that has
  \<^verbatim>\<open>success\<close> false.
\<close>

theorem agent_failures_folded_witness:
  "fst (chat_with_agent_try
      (Inr (answering_agent \<lparr>success = False, content = [], metadata = [],
                             error = Some ''rate limited''\<rparr>))
      (Inr (raising_agent (LibraryExc ''timeout'')))
      \<lparr>search_agent = None, chat_agent = None\<rparr>
      \<lparr>message = ''hi'', agent_type = ''chat'', request_context = None\<rparr>)
   = Inl (LibraryExc ''timeout'') \<and>
   is_Exception (LibraryExc ''timeout'') \<and>
   fst (chat_with_agent exc_tag
      (Inr (answering_agent \<lparr>success = False, content = [], metadata = [],
                             error = Some ''rate limited''\<rparr>))
      (Inr (raising_agent (LibraryExc ''timeout'')))
      \<lparr>search_agent = None, chat_agent = None\<rparr>
      \<lparr>message = ''hi'', agent_type = ''chat'', request_context = None\<rparr>)
   = Inr \<lparr>chat_success = False, response = [], chat_agent_type = ''chat'',
          capabilities = [], chat_metadata = [], chat_error = Some ''timeout''\<rparr> \<and>
   fst (search_and_summarize exc_tag no_coercion
      (Inr (answering_agent \<lparr>success = False, content = [], metadata = [],
                             error = Some ''rate limited''\<rparr>))
      \<lparr>search_agent = None, chat_agent = None\<rparr>
      \<lparr>query = ''coffee'', max_results = 5\<rparr>)
   = Inr \<lparr>search_success = False, search_query = ''coffee'', summary = [],
          search_results = None, sources_count = 0, search_error = Some ''rate limited''\<rparr>"
  using agent_failures_folded
      [of exc_tag
          "Inr (answering_agent \<lparr>success = False, content = [], metadata = [],
                             error = Some ''rate limited''\<rparr>)"
          "Inr (raising_agent (LibraryExc ''timeout''))"
          "\<lparr>search_agent = None, chat_agent = None\<rparr>"
          "\<lparr>message = ''hi'', agent_type = ''chat'', request_context = None\<rparr>"
          no_coercion
          "\<lparr>query = ''coffee'', max_results = 5\<rparr>"]
  by (simp add: chat_with_agent_def chat_with_agent_try_def chat_init_agents_def
        search_and_summarize_def search_and_summarize_try_def bind_exn_def
        raising_agent_def answering_agent_def exc_tag_def)

end
